theory Spec2Isabelle
  imports Main "HOL-Library.Sublist"
begin

section \<open>Strings\<close>

text \<open>
  Page text and URLs are JavaScript strings. They are modelled as \<open>string\<close>, one
  \<open>char\<close> per code unit below 256. \<open>String.prototype.trim\<close> removes the
  ECMAScript WhiteSpace and LineTerminator code units from both ends; those below 256 are
  TAB, LF, VT, FF, CR, SPACE and NBSP.
\<close>

definition is_js_space :: "char \<Rightarrow> bool" where
  "is_js_space c =
     (c \<in> set [CHR 0x09, CHR 0x0A, CHR 0x0B, CHR 0x0C, CHR 0x0D, CHR 0x20, CHR 0xA0])"

definition trim :: "string \<Rightarrow> string" where
  "trim s = rev (dropWhile is_js_space (rev (dropWhile is_js_space s)))"

section \<open>The DOM the extraction function reads\<close>

text \<open>
  A node is a text node or an element with its local name (lower case, as HTML selectors
  match it), its \<open>id\<close> attribute, its class list and its child nodes. A parent
  (the document, or an element) is given by the list of its children.
\<close>

datatype node =
    Text string
  | Element string "string option" "string list" "node list"

fun kids :: "node \<Rightarrow> node list" where
  "kids (Text s) = []"
| "kids (Element t i cl ks) = ks"

text \<open>The element and its element descendants, in tree order (preorder, depth first).\<close>

fun elements :: "node \<Rightarrow> node list" where
  "elements (Text s) = []"
| "elements (Element t i cl ks) = Element t i cl ks # concat (map elements ks)"

text \<open>\<open>Node.textContent\<close>: the concatenation of the text of all descendants.\<close>

fun textContent :: "node \<Rightarrow> string" where
  "textContent (Text s) = s"
| "textContent (Element t i cl ks) = concat (map textContent ks)"

text \<open>
  The selectors of the source are lists (comma separated) of compound selectors, each an
  optional type selector, an optional \<open>#id\<close> and some \<open>.class\<close>es.
\<close>

record compound =
  sel_tag :: "string option"
  sel_id :: "string option"
  sel_classes :: "string list"

fun matches_compound :: "compound \<Rightarrow> node \<Rightarrow> bool" where
  "matches_compound c (Text s) = False"
| "matches_compound c (Element t i cl ks) =
     ((case sel_tag c of None \<Rightarrow> True | Some t' \<Rightarrow> t = t') \<and>
      (case sel_id c of None \<Rightarrow> True | Some i' \<Rightarrow> i = Some i') \<and>
      list_all (\<lambda>k. k \<in> set cl) (sel_classes c))"

definition matches :: "compound list \<Rightarrow> node \<Rightarrow> bool" where
  "matches sel n = list_ex (\<lambda>c. matches_compound c n) sel"

text \<open>
  \<open>querySelectorAll\<close> on a parent: its matching element descendants in tree order.
  \<open>querySelector\<close>: the first of them, or null.
\<close>

definition querySelectorAll :: "compound list \<Rightarrow> node list \<Rightarrow> node list" where
  "querySelectorAll sel parent = filter (matches sel) (concat (map elements parent))"

definition querySelector :: "compound list \<Rightarrow> node list \<Rightarrow> node option" where
  "querySelector sel parent =
     (case querySelectorAll sel parent of [] \<Rightarrow> None | n # ns \<Rightarrow> Some n)"

text \<open>\<open>'a.zone-name'\<close>, \<open>'#filter-boss-text'\<close>, \<open>'tr.odd, tr.even'\<close> and \<open>'td'\<close>.\<close>

definition zone_selector :: "compound list" where
  "zone_selector =
     [\<lparr>sel_tag = Some ''a'', sel_id = None, sel_classes = [''zone-name'']\<rparr>]"

definition boss_selector :: "compound list" where
  "boss_selector =
     [\<lparr>sel_tag = None, sel_id = Some ''filter-boss-text'', sel_classes = []\<rparr>]"

definition row_selector :: "compound list" where
  "row_selector =
     [\<lparr>sel_tag = Some ''tr'', sel_id = None, sel_classes = [''odd'']\<rparr>,
      \<lparr>sel_tag = Some ''tr'', sel_id = None, sel_classes = [''even'']\<rparr>]"

definition td_selector :: "compound list" where
  "td_selector = [\<lparr>sel_tag = Some ''td'', sel_id = None, sel_classes = []\<rparr>]"

section \<open>The extraction function passed to page.evaluate\<close>

record table_row =
  jobName :: string
  score :: string
  count :: string

record scraped =
  zoneName :: string
  bossName :: string
  tableRows :: "table_row list"
  timestamp :: string

text \<open>\<open>cells[i]\<close> on a NodeList: the item, or undefined out of range.\<close>

definition item :: "'a list \<Rightarrow> nat \<Rightarrow> 'a option" where
  "item xs i = (if i < length xs then Some (xs ! i) else None)"

text \<open>\<open>cells[i] ? cells[i].textContent.trim() : ''\<close>\<close>

definition cell_text :: "node list \<Rightarrow> nat \<Rightarrow> string" where
  "cell_text cells i =
     (case item cells i of Some c \<Rightarrow> trim (textContent c) | None \<Rightarrow> [])"

text \<open>The row object built from the \<open>td\<close> cells of a row, or null.\<close>

definition row_of_cells :: "node list \<Rightarrow> table_row option" where
  "row_of_cells cells =
     (if length cells \<ge> 4
      then Some \<lparr>jobName = cell_text cells 0, score = cell_text cells 1,
                 count = cell_text cells 3\<rparr>
      else None)"

text \<open>The callback of \<open>Array.from(rows).map\<close>.\<close>

definition row_callback :: "node \<Rightarrow> table_row option" where
  "row_callback row = row_of_cells (querySelectorAll td_selector (kids row))"

text \<open>\<open>.filter(row => row !== null)\<close>\<close>

fun filter_non_null :: "'a option list \<Rightarrow> 'a list" where
  "filter_non_null [] = []"
| "filter_non_null (None # rs) = filter_non_null rs"
| "filter_non_null (Some r # rs) = r # filter_non_null rs"

text \<open>
  The function of src/unnamed/part_001, lines 81 to 128, on the document's children and
  the value of \<open>new Date().toISOString()\<close>. The DOM calls it makes are total on
  this DOM, so its three \<open>catch\<close> blocks are never entered.
\<close>

definition extraction :: "node list \<Rightarrow> string \<Rightarrow> scraped" where
  "extraction document ts =
     (let data = \<lparr>zoneName = [], bossName = [], tableRows = [], timestamp = ts\<rparr>;
          data = (case querySelector zone_selector document of
                    Some zoneElement \<Rightarrow> data\<lparr>zoneName := trim (textContent zoneElement)\<rparr>
                  | None \<Rightarrow> data);
          data = (case querySelector boss_selector document of
                    Some bossElement \<Rightarrow> data\<lparr>bossName := trim (textContent bossElement)\<rparr>
                  | None \<Rightarrow> data);
          rows = querySelectorAll row_selector document
      in data\<lparr>tableRows := filter_non_null (map row_callback rows)\<rparr>)"

text \<open>
  The same function in the second server of src/test-api.js (lines 156 to 208): the rows
  are pushed one by one in a \<open>forEach\<close>, and the cells are read without a guard.
\<close>

fun forEach_push :: "node list \<Rightarrow> table_row list \<Rightarrow> table_row list" where
  "forEach_push [] acc = acc"
| "forEach_push (row # rows) acc =
     (let cells = querySelectorAll td_selector (kids row)
      in if length cells \<ge> 4
         then forEach_push rows
                (acc @ [\<lparr>jobName = trim (textContent (cells ! 0)),
                          score = trim (textContent (cells ! 1)),
                          count = trim (textContent (cells ! 3))\<rparr>])
         else forEach_push rows acc)"

definition extraction_push :: "node list \<Rightarrow> string \<Rightarrow> scraped" where
  "extraction_push document ts =
     (let data = \<lparr>zoneName = [], bossName = [], tableRows = [], timestamp = ts\<rparr>;
          data = (case querySelector zone_selector document of
                    Some zoneElement \<Rightarrow> data\<lparr>zoneName := trim (textContent zoneElement)\<rparr>
                  | None \<Rightarrow> data);
          data = (case querySelector boss_selector document of
                    Some bossElement \<Rightarrow> data\<lparr>bossName := trim (textContent bossElement)\<rparr>
                  | None \<Rightarrow> data);
          tableRows' = querySelectorAll row_selector document
      in data\<lparr>tableRows := forEach_push tableRows' (tableRows data)\<rparr>)"

section \<open>JSON values and HTTP responses\<close>

datatype json =
    JString string
  | JBool bool
  | JArray "json list"
  | JObject "(string \<times> json) list"

record response =
  status :: nat
  body :: json

text \<open>The value of a field of a JSON object, if the value is an object that has it.\<close>

fun json_field :: "json \<Rightarrow> string \<Rightarrow> json option" where
  "json_field (JObject fs) k = map_of fs k"
| "json_field j k = None"

definition json_of_row :: "table_row \<Rightarrow> json" where
  "json_of_row r =
     JObject [(''jobName'', JString (jobName r)), (''score'', JString (score r)),
              (''count'', JString (count r))]"

definition json_of_scraped :: "scraped \<Rightarrow> json" where
  "json_of_scraped d =
     JObject [(''zoneName'', JString (zoneName d)), (''bossName'', JString (bossName d)),
              (''tableRows'', JArray (map json_of_row (tableRows d))),
              (''timestamp'', JString (timestamp d))]"

text \<open>The four responses of \<open>POST /scrape\<close> in src/unnamed/part_001.\<close>

definition required_response :: response where
  "required_response =
     \<lparr>status = 400,
      body = JObject [(''error'', JString ''URL is required in request body''),
                      (''example'', JObject [(''url'', JString ''https://example.com'')])]\<rparr>"

definition invalid_response :: "string \<Rightarrow> response" where
  "invalid_response url =
     \<lparr>status = 400,
      body = JObject [(''error'', JString ''Invalid URL format''),
                      (''provided'', JString url)]\<rparr>"

definition success_response :: "scraped \<Rightarrow> response" where
  "success_response scrapedData =
     \<lparr>status = 200,
      body = JObject [(''success'', JBool True), (''data'', json_of_scraped scrapedData)]\<rparr>"

definition failure_response :: "string \<Rightarrow> response" where
  "failure_response message =
     \<lparr>status = 500,
      body = JObject [(''success'', JBool False),
                      (''error'', JString ''Failed to scrape the website''),
                      (''message'', JString message)]\<rparr>"

text \<open>The error-handling middleware and the 404 handler of src/unnamed/part_001.\<close>

definition error_middleware_response :: response where
  "error_middleware_response =
     \<lparr>status = 500,
      body = JObject [(''success'', JBool False),
                      (''error'', JString ''Internal server error'')]\<rparr>"

definition not_found_response :: response where
  "not_found_response =
     \<lparr>status = 404,
      body = JObject [(''success'', JBool False),
                      (''error'', JString ''Endpoint not found'')]\<rparr>"

text \<open>The two 400 responses of \<open>POST /scrape\<close> in the second server of src/test-api.js.\<close>

definition required_response_alt :: response where
  "required_response_alt =
     \<lparr>status = 400,
      body = JObject [(''error'', JString ''URL is required''),
                      (''example'', JObject [(''url'', JString ''https://example.com'')])]\<rparr>"

definition invalid_response_alt :: response where
  "invalid_response_alt =
     \<lparr>status = 400,
      body = JObject [(''error'', JString ''Invalid URL format''),
                      (''example'', JObject [(''url'', JString ''https://example.com'')])]\<rparr>"

section \<open>The URL constructor\<close>

text \<open>
  \<open>new URL(url)\<close> runs the basic URL parser of the URL Standard with no base URL and
  throws a TypeError on failure. The parser strips leading and trailing C0 controls and
  spaces, removes tabs and newlines, and reads the scheme: an ASCII letter, then letters,
  digits, \<open>+\<close>, \<open>-\<close> and \<open>.\<close> up to a colon, lower-cased. Without a scheme
  and without a base the parser fails.
\<close>

definition c0_control_or_space :: "char \<Rightarrow> bool" where
  "c0_control_or_space c = ((of_char c :: nat) \<le> 0x20)"

definition ascii_tab_or_newline :: "char \<Rightarrow> bool" where
  "ascii_tab_or_newline c = (c \<in> set [CHR 0x09, CHR 0x0A, CHR 0x0D])"

definition ascii_upper_alpha :: "char \<Rightarrow> bool" where
  "ascii_upper_alpha c = (c \<in> set ''ABCDEFGHIJKLMNOPQRSTUVWXYZ'')"

definition ascii_lower_alpha :: "char \<Rightarrow> bool" where
  "ascii_lower_alpha c = (c \<in> set ''abcdefghijklmnopqrstuvwxyz'')"

definition ascii_alpha :: "char \<Rightarrow> bool" where
  "ascii_alpha c = (ascii_upper_alpha c \<or> ascii_lower_alpha c)"

definition ascii_digit :: "char \<Rightarrow> bool" where
  "ascii_digit c = (c \<in> set ''0123456789'')"

definition ascii_lowercase :: "char \<Rightarrow> char" where
  "ascii_lowercase c =
     (case map_of (zip ''ABCDEFGHIJKLMNOPQRSTUVWXYZ'' ''abcdefghijklmnopqrstuvwxyz'') c of
        Some l \<Rightarrow> l
      | None \<Rightarrow> c)"

definition url_preprocess :: "string \<Rightarrow> string" where
  "url_preprocess input =
     filter (\<lambda>c. \<not> ascii_tab_or_newline c)
       (rev (dropWhile c0_control_or_space (rev (dropWhile c0_control_or_space input))))"

text \<open>The scheme state: the buffer so far and the input left; the scheme and the rest.\<close>

fun scheme_state :: "string \<Rightarrow> string \<Rightarrow> (string \<times> string) option" where
  "scheme_state buffer [] = None"
| "scheme_state buffer (c # cs) =
     (if ascii_alpha c \<or> ascii_digit c \<or> c \<in> set ''+-.''
      then scheme_state (buffer @ [ascii_lowercase c]) cs
      else if c = CHR '':'' then Some (buffer, cs)
      else None)"

text \<open>The scheme start state.\<close>

fun scheme_start_state :: "string \<Rightarrow> (string \<times> string) option" where
  "scheme_start_state [] = None"
| "scheme_start_state (c # cs) =
     (if ascii_alpha c then scheme_state [ascii_lowercase c] cs else None)"

definition special_schemes :: "string list" where
  "special_schemes = [''ftp'', ''file'', ''http'', ''https'', ''ws'', ''wss'']"

text \<open>
  After the scheme, a URL whose scheme is not special and whose rest does not start with a
  slash has an opaque path, and parsing it never fails. Every other URL goes through the
  authority, host, port and path states, which are not modelled: \<open>hier scheme rest\<close>
  says whether they return a URL. The result is the scheme of the URL, or \<open>None\<close>
  when the constructor throws.
\<close>

definition new_URL :: "(string \<Rightarrow> string \<Rightarrow> bool) \<Rightarrow> string \<Rightarrow> string option" where
  "new_URL hier input =
     (case scheme_start_state (url_preprocess input) of
        None \<Rightarrow> None
      | Some (scheme, rest) \<Rightarrow>
          if scheme \<notin> set special_schemes \<and> (case rest of [] \<Rightarrow> True | c # cs \<Rightarrow> c \<noteq> CHR ''/'')
          then Some scheme
          else if hier scheme rest then Some scheme else None)"

section \<open>The POST /scrape handler\<close>

text \<open>
  The \<open>url\<close> property of the parsed request body: absent, or a string. The empty
  string is the only string that \<open>!url\<close> takes as missing. Bodies whose \<open>url\<close>
  is a number, a boolean, null, an array or an object are outside this model.
\<close>

datatype url_field = Absent | Str string

text \<open>
  The calls into the browser engine, in the order of the source. The two calls of
  \<open>browser.close\<close> are told apart: the one that ends the \<open>try\<close> block and the one
  in the \<open>catch\<close> block. \<open>WaitForTimeout\<close> is called by the second server of
  src/test-api.js only.
\<close>

datatype stage =
    Launch | NewContext | NewPage | SetDefaultTimeout | Goto | WaitForTimeout
  | WaitForSelector | Evaluate | CloseTry | CloseCatch

fun is_close :: "stage \<Rightarrow> bool" where
  "is_close CloseTry = True"
| "is_close CloseCatch = True"
| "is_close s = False"

text \<open>
  The world of one request: what the unmodelled part of the URL parser answers, which
  calls into the engine throw (with the message of the error), the document at the
  moment \<open>page.evaluate\<close> runs, and the time it reads.
\<close>

record env =
  hier_parses :: "string \<Rightarrow> string \<Rightarrow> bool"
  fault :: "stage \<Rightarrow> string option"
  page_dom :: "node list"
  now :: string

text \<open>
  The state of the handler: whether the variable \<open>browser\<close> is set, the calls made
  into the engine so far, and the response sent. An action returns a value or throws an
  error, given by its message. \<open>res.json\<close> is taken not to throw.
\<close>

record hstate =
  browser :: bool
  trace :: "stage list"
  sent :: "response option"

definition idle :: hstate where
  "idle = \<lparr>browser = False, trace = [], sent = None\<rparr>"

type_synonym 'a action = "hstate \<Rightarrow> (string + 'a) \<times> hstate"

definition await :: "env \<Rightarrow> stage \<Rightarrow> unit action" where
  "await e st s =
     ((case fault e st of None \<Rightarrow> Inr () | Some m \<Rightarrow> Inl m), s\<lparr>trace := trace s @ [st]\<rparr>)"

definition andThen :: "'a action \<Rightarrow> ('a \<Rightarrow> 'b action) \<Rightarrow> 'b action" where
  "andThen m k s = (case m s of (Inl err, s') \<Rightarrow> (Inl err, s') | (Inr a, s') \<Rightarrow> k a s')"

definition try_catch :: "'a action \<Rightarrow> (string \<Rightarrow> 'a action) \<Rightarrow> 'a action" where
  "try_catch m handler s =
     (case m s of (Inl err, s') \<Rightarrow> handler err s' | (Inr a, s') \<Rightarrow> (Inr a, s'))"

definition skip :: "unit action" where
  "skip s = (Inr (), s)"

definition assign_browser :: "unit action" where
  "assign_browser s = (Inr (), s\<lparr>browser := True\<rparr>)"

definition json_send :: "response \<Rightarrow> unit action" where
  "json_send r s = (Inr (), s\<lparr>sent := Some r\<rparr>)"

text \<open>\<open>await page.evaluate(() => { ... })\<close> in each of the two servers.\<close>

definition evaluate :: "env \<Rightarrow> scraped action" where
  "evaluate e =
     andThen (await e Evaluate) (\<lambda>_ s. (Inr (extraction (page_dom e) (now e)), s))"

definition evaluate_alt :: "env \<Rightarrow> scraped action" where
  "evaluate_alt e =
     andThen (await e Evaluate) (\<lambda>_ s. (Inr (extraction_push (page_dom e) (now e)), s))"

text \<open>The \<open>try\<close> block of src/unnamed/part_001, lines 41 to 136.\<close>

definition try_block :: "env \<Rightarrow> unit action" where
  "try_block e =
     andThen (await e Launch) (\<lambda>_.
     andThen assign_browser (\<lambda>_.
     andThen (await e NewContext) (\<lambda>_.
     andThen (await e NewPage) (\<lambda>_.
     andThen (await e SetDefaultTimeout) (\<lambda>_.
     andThen (await e Goto) (\<lambda>_.
     andThen (try_catch (await e WaitForSelector) (\<lambda>error. skip)) (\<lambda>_.
     andThen (evaluate e) (\<lambda>scrapedData.
     andThen (await e CloseTry) (\<lambda>_.
     json_send (success_response scrapedData))))))))))"

text \<open>Its \<open>catch\<close> block, lines 137 to 149.\<close>

definition catch_block :: "env \<Rightarrow> string \<Rightarrow> unit action" where
  "catch_block e message =
     andThen (\<lambda>s. if browser s then await e CloseCatch s else skip s) (\<lambda>_.
     json_send (failure_response message))"

text \<open>
  The handler, lines 20 to 150. The result is \<open>Inl\<close> when the handler itself throws
  (its promise is rejected), which only the \<open>catch\<close> block can cause.
\<close>

definition post_scrape :: "env \<Rightarrow> url_field \<Rightarrow> (string + unit) \<times> hstate" where
  "post_scrape e url =
     (let s0 = idle
      in case url of
           Absent \<Rightarrow> json_send required_response s0
         | Str u \<Rightarrow>
             if u = [] then json_send required_response s0
             else (case new_URL (hier_parses e) u of
                     None \<Rightarrow> json_send (invalid_response u) s0
                   | Some parsed \<Rightarrow> try_catch (try_block e) (catch_block e) s0))"

text \<open>The same handler in the second server of src/test-api.js, lines 87 to 232.\<close>

definition try_block_alt :: "env \<Rightarrow> unit action" where
  "try_block_alt e =
     andThen (await e Launch) (\<lambda>_.
     andThen assign_browser (\<lambda>_.
     andThen (await e NewContext) (\<lambda>_.
     andThen (await e NewPage) (\<lambda>_.
     andThen (await e SetDefaultTimeout) (\<lambda>_.
     andThen (await e Goto) (\<lambda>_.
     andThen (await e WaitForTimeout) (\<lambda>_.
     andThen (try_catch (await e WaitForSelector) (\<lambda>error. skip)) (\<lambda>_.
     andThen (evaluate_alt e) (\<lambda>scrapedData.
     andThen (await e CloseTry) (\<lambda>_.
     json_send (success_response scrapedData)))))))))))"

definition post_scrape_alt :: "env \<Rightarrow> url_field \<Rightarrow> (string + unit) \<times> hstate" where
  "post_scrape_alt e url =
     (let s0 = idle
      in case url of
           Absent \<Rightarrow> json_send required_response_alt s0
         | Str u \<Rightarrow>
             if u = [] then json_send required_response_alt s0
             else (case new_URL (hier_parses e) u of
                     None \<Rightarrow> json_send invalid_response_alt s0
                   | Some parsed \<Rightarrow> try_catch (try_block_alt e) (catch_block e) s0))"

text \<open>What a run leaves behind: the response, the calls made, the number of closes.\<close>

definition response_of :: "(string + unit) \<times> hstate \<Rightarrow> response option" where
  "response_of run = sent (snd run)"

definition calls_of :: "(string + unit) \<times> hstate \<Rightarrow> stage list" where
  "calls_of run = trace (snd run)"

definition close_count :: "(string + unit) \<times> hstate \<Rightarrow> nat" where
  "close_count run = length (filter is_close (calls_of run))"

definition acquired :: "(string + unit) \<times> hstate \<Rightarrow> bool" where
  "acquired run = browser (snd run)"

section \<open>Sample pages and worlds\<close>

definition td :: "string \<Rightarrow> node" where
  "td s = Element ''td'' None [] [Text s]"

definition row_paladin :: node where
  "row_paladin =
     Element ''tr'' None [''odd''] [td ''Paladin '', td ''95.1'', td ''x'', td '' 120'']"

definition row_short :: node where
  "row_short = Element ''tr'' None [''even''] [td ''short'', td ''row'']"

definition row_monk :: node where
  "row_monk =
     Element ''tr'' None [''odd''] [td ''Monk'', td ''90.0'', td ''y'', td ''80'', td ''z'']"

text \<open>A statistics page: a zone link, a boss filter and a table of three rows.\<close>

definition sample_page :: "node list" where
  "sample_page =
     [Element ''html'' None []
       [Element ''body'' None []
         [Element ''a'' None [''zone-name''] [Text ''  Anabaseios  ''],
          Element ''span'' (Some ''filter-boss-text'') [] [Text '' Kokytos''],
          Element ''table'' None []
            [Element ''tbody'' None [] [row_paladin, row_short, row_monk]]]]]"

text \<open>A page with none of the elements the extraction looks for.\<close>

definition bare_page :: "node list" where
  "bare_page =
     [Element ''html'' None []
       [Element ''body'' None [] [Element ''h1'' None [] [Text ''Example Domain'']]]]"

text \<open>
  Sample worlds. In all of them the unmodelled part of the URL parser accepts
  \<open>https://example.com\<close> and nothing else.
\<close>

definition sample_hier :: "string \<Rightarrow> string \<Rightarrow> bool" where
  "sample_hier scheme rest = (scheme = ''https'' \<and> rest = ''//example.com'')"

definition sample_env :: env where
  "sample_env =
     \<lparr>hier_parses = sample_hier, fault = Map.empty, page_dom = sample_page,
      now = ''2024-01-01T00:00:00.000Z''\<rparr>"

definition bare_env :: env where
  "bare_env = sample_env\<lparr>page_dom := bare_page\<rparr>"

definition close_fault_env :: env where
  "close_fault_env = sample_env\<lparr>fault := [CloseTry \<mapsto> ''Protocol error'']\<rparr>"

definition wait_timeout_env :: env where
  "wait_timeout_env =
     bare_env\<lparr>fault := [WaitForSelector \<mapsto> ''Timeout 15000ms exceeded.'']\<rparr>"

definition nav_timeout_env :: env where
  "nav_timeout_env = sample_env\<lparr>fault := [Goto \<mapsto> ''Timeout 30000ms exceeded.'']\<rparr>"

text \<open>
  The document the browser builds for the URL \<open>data:text/html,<h1>hi</h1>\<close>, and the
  world of a request for it: the navigation succeeds, no table row ever shows, so the
  content wait times out.
\<close>

definition data_page :: "node list" where
  "data_page =
     [Element ''html'' None []
       [Element ''head'' None [] [],
        Element ''body'' None [] [Element ''h1'' None [] [Text ''hi'']]]]"

definition data_env :: env where
  "data_env =
     sample_env\<lparr>fault := [WaitForSelector \<mapsto> ''Timeout 15000ms exceeded.''],
                page_dom := data_page\<rparr>"

section \<open>Facts about the extraction function\<close>

lemma filter_non_null_filter:
  "map Some (filter_non_null rs) = filter (\<lambda>r. r \<noteq> None) rs"
  by (induction rs rule: filter_non_null.induct) simp_all

lemma filter_non_null_append:
  "filter_non_null (xs @ ys) = filter_non_null xs @ filter_non_null ys"
  by (induction xs rule: filter_non_null.induct) simp_all

lemma filter_non_null_subseq: "subseq (map Some (filter_non_null rs)) rs"
  by (induction rs rule: filter_non_null.induct) (auto intro: list_emb_Cons)

lemma forEach_push_map_filter:
  "forEach_push rows acc = acc @ filter_non_null (map row_callback rows)"
  by (induction rows arbitrary: acc)
     (simp_all add: row_callback_def row_of_cells_def cell_text_def item_def Let_def)

lemma tableRows_extraction:
  "tableRows (extraction document ts) =
     filter_non_null (map row_callback (querySelectorAll row_selector document))"
  by (simp add: extraction_def Let_def split: option.split)

lemma zoneName_extraction:
  "zoneName (extraction document ts) =
     (case querySelector zone_selector document of
        None \<Rightarrow> [] | Some z \<Rightarrow> trim (textContent z))"
  by (simp add: extraction_def Let_def split: option.split)

lemma bossName_extraction:
  "bossName (extraction document ts) =
     (case querySelector boss_selector document of
        None \<Rightarrow> [] | Some b \<Rightarrow> trim (textContent b))"
  by (simp add: extraction_def Let_def split: option.split)

lemma extraction_push_extraction: "extraction_push document ts = extraction document ts"
  by (simp add: extraction_def extraction_push_def Let_def forEach_push_map_filter
      split: option.split)

lemmas dom_defs = querySelector_def querySelectorAll_def matches_def zone_selector_def
  boss_selector_def row_selector_def td_selector_def row_callback_def row_of_cells_def
  cell_text_def item_def trim_def is_js_space_def td_def

lemma rows_sample_page:
  "querySelectorAll row_selector sample_page = [row_paladin, row_short, row_monk]"
  by (simp add: sample_page_def row_paladin_def row_short_def row_monk_def dom_defs)

lemma extraction_sample_page:
  "extraction sample_page ts =
     \<lparr>zoneName = ''Anabaseios'', bossName = ''Kokytos'',
      tableRows = [\<lparr>jobName = ''Paladin'', score = ''95.1'', count = ''120''\<rparr>,
                   \<lparr>jobName = ''Monk'', score = ''90.0'', count = ''80''\<rparr>],
      timestamp = ts\<rparr>"
  by (simp add: extraction_def sample_page_def row_paladin_def row_short_def row_monk_def
      dom_defs Let_def)

lemma extraction_bare_page:
  "extraction bare_page ts = \<lparr>zoneName = [], bossName = [], tableRows = [], timestamp = ts\<rparr>"
  by (simp add: extraction_def bare_page_def dom_defs Let_def)

lemma extraction_data_page:
  "extraction data_page ts = \<lparr>zoneName = [], bossName = [], tableRows = [], timestamp = ts\<rparr>"
  by (simp add: extraction_def data_page_def dom_defs Let_def)

section \<open>Facts about the URL constructor\<close>

lemmas url_defs = new_URL_def url_preprocess_def c0_control_or_space_def
  ascii_tab_or_newline_def ascii_alpha_def ascii_upper_alpha_def ascii_lower_alpha_def
  ascii_digit_def ascii_lowercase_def special_schemes_def

lemma new_URL_data: "new_URL hier ''data:text/html,<h1>hi</h1>'' = Some ''data''"
  by (simp add: url_defs)

lemma new_URL_not_a_url: "new_URL hier ''not-a-url'' = None"
  by (simp add: url_defs)

lemma new_URL_example: "new_URL sample_hier ''https://example.com'' = Some ''https''"
  by (simp add: url_defs sample_hier_def)

section \<open>Facts about the handler\<close>

lemma andThen_await:
  "andThen (await e st) k s =
     (case fault e st of
        None \<Rightarrow> k () (s\<lparr>trace := trace s @ [st]\<rparr>)
      | Some m \<Rightarrow> (Inl m, s\<lparr>trace := trace s @ [st]\<rparr>))"
  by (simp add: andThen_def await_def split: option.split)

lemma andThen_soft_await:
  "andThen (try_catch (await e st) (\<lambda>error. skip)) k s = k () (s\<lparr>trace := trace s @ [st]\<rparr>)"
  by (simp add: andThen_def try_catch_def skip_def await_def split: option.split)

lemma andThen_assign_browser: "andThen assign_browser k s = k () (s\<lparr>browser := True\<rparr>)"
  by (simp add: andThen_def assign_browser_def)

lemma andThen_evaluate:
  "andThen (evaluate e) k s =
     (case fault e Evaluate of
        None \<Rightarrow> k (extraction (page_dom e) (now e)) (s\<lparr>trace := trace s @ [Evaluate]\<rparr>)
      | Some m \<Rightarrow> (Inl m, s\<lparr>trace := trace s @ [Evaluate]\<rparr>))"
  by (simp add: andThen_def evaluate_def await_def split: option.split)

lemma andThen_evaluate_alt:
  "andThen (evaluate_alt e) k s =
     (case fault e Evaluate of
        None \<Rightarrow> k (extraction (page_dom e) (now e)) (s\<lparr>trace := trace s @ [Evaluate]\<rparr>)
      | Some m \<Rightarrow> (Inl m, s\<lparr>trace := trace s @ [Evaluate]\<rparr>))"
  by (simp add: andThen_def evaluate_alt_def await_def extraction_push_extraction
      split: option.split)

lemmas step_simps = andThen_await andThen_soft_await andThen_assign_browser andThen_evaluate
  andThen_evaluate_alt json_send_def idle_def

lemma catch_block_unfold:
  "catch_block e m s =
     (if browser s
      then (case fault e CloseCatch of
              None \<Rightarrow> (Inr (), s\<lparr>trace := trace s @ [CloseCatch],
                                  sent := Some (failure_response m)\<rparr>)
            | Some m' \<Rightarrow> (Inl m', s\<lparr>trace := trace s @ [CloseCatch]\<rparr>))
      else (Inr (), s\<lparr>sent := Some (failure_response m)\<rparr>))"
  by (simp add: catch_block_def andThen_def await_def skip_def json_send_def
      split: option.split)

text \<open>The call that throws first, among those of the \<open>try\<close> block that can.\<close>

lemma first_fault_cases:
  obtains (launch) m where "fault e Launch = Some m"
  | (newContext) m where "fault e Launch = None" "fault e NewContext = Some m"
  | (newPage) m where "fault e Launch = None" "fault e NewContext = None"
      "fault e NewPage = Some m"
  | (setDefaultTimeout) m where "fault e Launch = None" "fault e NewContext = None"
      "fault e NewPage = None" "fault e SetDefaultTimeout = Some m"
  | (goto) m where "fault e Launch = None" "fault e NewContext = None"
      "fault e NewPage = None" "fault e SetDefaultTimeout = None" "fault e Goto = Some m"
  | (evaluate) m where "fault e Launch = None" "fault e NewContext = None"
      "fault e NewPage = None" "fault e SetDefaultTimeout = None" "fault e Goto = None"
      "fault e Evaluate = Some m"
  | (close) m where "fault e Launch = None" "fault e NewContext = None"
      "fault e NewPage = None" "fault e SetDefaultTimeout = None" "fault e Goto = None"
      "fault e Evaluate = None" "fault e CloseTry = Some m"
  | (none) "fault e Launch = None" "fault e NewContext = None"
      "fault e NewPage = None" "fault e SetDefaultTimeout = None" "fault e Goto = None"
      "fault e Evaluate = None" "fault e CloseTry = None"
  by (cases "fault e Launch"; cases "fault e NewContext"; cases "fault e NewPage";
      cases "fault e SetDefaultTimeout"; cases "fault e Goto"; cases "fault e Evaluate";
      cases "fault e CloseTry"; blast)

lemma first_fault_cases_alt:
  obtains (launch) m where "fault e Launch = Some m"
  | (newContext) m where "fault e Launch = None" "fault e NewContext = Some m"
  | (newPage) m where "fault e Launch = None" "fault e NewContext = None"
      "fault e NewPage = Some m"
  | (setDefaultTimeout) m where "fault e Launch = None" "fault e NewContext = None"
      "fault e NewPage = None" "fault e SetDefaultTimeout = Some m"
  | (goto) m where "fault e Launch = None" "fault e NewContext = None"
      "fault e NewPage = None" "fault e SetDefaultTimeout = None" "fault e Goto = Some m"
  | (waitForTimeout) m where "fault e Launch = None" "fault e NewContext = None"
      "fault e NewPage = None" "fault e SetDefaultTimeout = None" "fault e Goto = None"
      "fault e WaitForTimeout = Some m"
  | (evaluate) m where "fault e Launch = None" "fault e NewContext = None"
      "fault e NewPage = None" "fault e SetDefaultTimeout = None" "fault e Goto = None"
      "fault e WaitForTimeout = None" "fault e Evaluate = Some m"
  | (close) m where "fault e Launch = None" "fault e NewContext = None"
      "fault e NewPage = None" "fault e SetDefaultTimeout = None" "fault e Goto = None"
      "fault e WaitForTimeout = None" "fault e Evaluate = None" "fault e CloseTry = Some m"
  | (none) "fault e Launch = None" "fault e NewContext = None"
      "fault e NewPage = None" "fault e SetDefaultTimeout = None" "fault e Goto = None"
      "fault e WaitForTimeout = None" "fault e Evaluate = None" "fault e CloseTry = None"
  by (cases "fault e Launch"; cases "fault e NewContext"; cases "fault e NewPage";
      cases "fault e SetDefaultTimeout"; cases "fault e Goto"; cases "fault e WaitForTimeout";
      cases "fault e Evaluate"; cases "fault e CloseTry"; blast)

lemmas run_defs = response_of_def calls_of_def close_count_def acquired_def

lemmas pipeline_simps = try_catch_def try_block_def try_block_alt_def step_simps
  catch_block_unfold run_defs

text \<open>What every run of the two pipelines satisfies, whichever call throws first.\<close>

lemma pipeline_launches:
  "Launch \<in> set (calls_of (try_catch (try_block e) (catch_block e) idle))"
  by (cases e rule: first_fault_cases) (simp_all add: pipeline_simps split: option.split)

lemma pipeline_navigates:
  "(Goto \<in> set (calls_of (try_catch (try_block e) (catch_block e) idle))) =
     (fault e Launch = None \<and> fault e NewContext = None \<and> fault e NewPage = None \<and>
      fault e SetDefaultTimeout = None)"
  by (cases e rule: first_fault_cases) (simp_all add: pipeline_simps split: option.split)

lemma pipeline_acquired:
  "acquired (try_catch (try_block e) (catch_block e) idle) = (fault e Launch = None)"
  by (cases e rule: first_fault_cases) (simp_all add: pipeline_simps split: option.split)

lemma pipeline_close_count:
  "close_count (try_catch (try_block e) (catch_block e) idle) =
     (if fault e Launch \<noteq> None then 0
      else if CloseTry \<in> set (calls_of (try_catch (try_block e) (catch_block e) idle)) \<and>
              fault e CloseTry \<noteq> None
      then 2 else 1)"
  by (cases e rule: first_fault_cases) (simp_all add: pipeline_simps split: option.split)

lemma pipeline_response:
  "response_of (try_catch (try_block e) (catch_block e) idle) = Some r \<Longrightarrow>
     r = success_response (extraction (page_dom e) (now e)) \<or> (\<exists>m. r = failure_response m)"
  by (cases e rule: first_fault_cases) (auto simp: pipeline_simps split: option.splits)

lemma pipeline_alt_launches:
  "Launch \<in> set (calls_of (try_catch (try_block_alt e) (catch_block e) idle))"
  by (cases e rule: first_fault_cases_alt) (simp_all add: pipeline_simps split: option.split)

lemma pipeline_alt_navigates:
  "(Goto \<in> set (calls_of (try_catch (try_block_alt e) (catch_block e) idle))) =
     (fault e Launch = None \<and> fault e NewContext = None \<and> fault e NewPage = None \<and>
      fault e SetDefaultTimeout = None)"
  by (cases e rule: first_fault_cases_alt) (simp_all add: pipeline_simps split: option.split)

lemma pipeline_alt_acquired:
  "acquired (try_catch (try_block_alt e) (catch_block e) idle) = (fault e Launch = None)"
  by (cases e rule: first_fault_cases_alt) (simp_all add: pipeline_simps split: option.split)

lemma pipeline_alt_close_count:
  "close_count (try_catch (try_block_alt e) (catch_block e) idle) =
     (if fault e Launch \<noteq> None then 0
      else if CloseTry \<in> set (calls_of (try_catch (try_block_alt e) (catch_block e) idle)) \<and>
              fault e CloseTry \<noteq> None
      then 2 else 1)"
  by (cases e rule: first_fault_cases_alt) (simp_all add: pipeline_simps split: option.split)

lemma pipeline_alt_response:
  "response_of (try_catch (try_block_alt e) (catch_block e) idle) = Some r \<Longrightarrow>
     r = success_response (extraction (page_dom e) (now e)) \<or> (\<exists>m. r = failure_response m)"
  by (cases e rule: first_fault_cases_alt) (auto simp: pipeline_simps split: option.splits)

lemma post_scrape_accepted:
  "u \<noteq> [] \<Longrightarrow> new_URL (hier_parses e) u = Some parsed \<Longrightarrow>
     post_scrape e (Str u) = try_catch (try_block e) (catch_block e) idle"
  by (simp add: post_scrape_def)

lemma post_scrape_alt_accepted:
  "u \<noteq> [] \<Longrightarrow> new_URL (hier_parses e) u = Some parsed \<Longrightarrow>
     post_scrape_alt e (Str u) = try_catch (try_block_alt e) (catch_block e) idle"
  by (simp add: post_scrape_alt_def)

lemma post_scrape_rejected:
  "u = [] \<or> new_URL (hier_parses e) u = None \<Longrightarrow>
     post_scrape e (Str u) =
       (Inr (), idle\<lparr>sent := Some (if u = [] then required_response else invalid_response u)\<rparr>)"
  by (auto simp: post_scrape_def json_send_def)

lemma post_scrape_alt_rejected:
  "u = [] \<or> new_URL (hier_parses e) u = None \<Longrightarrow>
     post_scrape_alt e (Str u) =
       (Inr (), idle\<lparr>sent := Some (if u = [] then required_response_alt
                                      else invalid_response_alt)\<rparr>)"
  by (auto simp: post_scrape_alt_def json_send_def)

lemma post_scrape_absent:
  "post_scrape e Absent = (Inr (), idle\<lparr>sent := Some required_response\<rparr>)"
  "post_scrape_alt e Absent = (Inr (), idle\<lparr>sent := Some required_response_alt\<rparr>)"
  by (simp_all add: post_scrape_def post_scrape_alt_def json_send_def)

lemmas response_defs = required_response_def invalid_response_def success_response_def
  failure_response_def required_response_alt_def invalid_response_alt_def
  error_middleware_response_def not_found_response_def

lemmas env_defs = sample_env_def bare_env_def nav_timeout_env_def

section \<open>The URL validator (C1, C4)\<close>

text \<open>
  C1, as stated, fails: the handler only asks whether \<open>new URL(url)\<close> throws and never
  looks at the scheme. The string \<open>data:text/html,<h1>hi</h1>\<close> parses as an absolute
  URL with scheme \<open>data\<close>, which is neither \<open>http\<close> nor \<open>https\<close>. The handler
  does not answer 400: it launches the browser, navigates to the URL, waits in vain for
  table rows, extracts from the page and answers 200 with an empty record.
\<close>

theorem scheme_not_checked_counterexample:
  "new_URL (hier_parses data_env) ''data:text/html,<h1>hi</h1>'' = Some ''data'' \<and>
   ''data'' \<noteq> ''http'' \<and> ''data'' \<noteq> ''https'' \<and>
   calls_of (post_scrape data_env (Str ''data:text/html,<h1>hi</h1>'')) =
     [Launch, NewContext, NewPage, SetDefaultTimeout, Goto, WaitForSelector, Evaluate,
      CloseTry] \<and>
   response_of (post_scrape data_env (Str ''data:text/html,<h1>hi</h1>'')) =
     Some (success_response
       \<lparr>zoneName = [], bossName = [], tableRows = [],
        timestamp = ''2024-01-01T00:00:00.000Z''\<rparr>) \<and>
   status (success_response
       \<lparr>zoneName = [], bossName = [], tableRows = [],
        timestamp = ''2024-01-01T00:00:00.000Z''\<rparr>) = 200"
  by (simp add: post_scrape_accepted [OF _ new_URL_data] new_URL_data pipeline_simps
      success_response_def data_env_def sample_env_def extraction_data_page)

text \<open>
  C1, amended: in both servers the validator accepts a caller-supplied string if and only
  if the string is not empty and \<open>new URL\<close> parses it as an absolute URL, whatever its
  scheme. A rejected string is answered with status 400 and \<open>chromium.launch\<close> is not
  called. An accepted string is never answered with status 400: \<open>chromium.launch\<close> is
  called, and \<open>page.goto\<close> is called exactly when none of \<open>chromium.launch\<close>,
  \<open>browser.newContext\<close>, \<open>context.newPage\<close> and \<open>page.setDefaultTimeout\<close>
  throws.
\<close>

theorem validator_accepts_what_URL_parses:
  "(Launch \<in> set (calls_of (post_scrape e (Str u)))) =
     (u \<noteq> [] \<and> new_URL (hier_parses e) u \<noteq> None) \<and>
   (Goto \<in> set (calls_of (post_scrape e (Str u)))) =
     ((u \<noteq> [] \<and> new_URL (hier_parses e) u \<noteq> None) \<and>
      fault e Launch = None \<and> fault e NewContext = None \<and> fault e NewPage = None \<and>
      fault e SetDefaultTimeout = None) \<and>
   (map_option status (response_of (post_scrape e (Str u))) = Some 400) =
     (u = [] \<or> new_URL (hier_parses e) u = None) \<and>
   (Launch \<in> set (calls_of (post_scrape_alt e (Str u)))) =
     (u \<noteq> [] \<and> new_URL (hier_parses e) u \<noteq> None) \<and>
   (Goto \<in> set (calls_of (post_scrape_alt e (Str u)))) =
     ((u \<noteq> [] \<and> new_URL (hier_parses e) u \<noteq> None) \<and>
      fault e Launch = None \<and> fault e NewContext = None \<and> fault e NewPage = None \<and>
      fault e SetDefaultTimeout = None) \<and>
   (map_option status (response_of (post_scrape_alt e (Str u))) = Some 400) =
     (u = [] \<or> new_URL (hier_parses e) u = None)"
proof (cases "u = [] \<or> new_URL (hier_parses e) u = None")
  case True
  then show ?thesis
    by (simp only: post_scrape_rejected post_scrape_alt_rejected)
       (auto simp: run_defs idle_def response_defs)
next
  case False
  then obtain parsed where ok: "u \<noteq> []" "new_URL (hier_parses e) u = Some parsed"
    by auto
  have "map_option status (response_of (try_catch (try_block e) (catch_block e) idle))
          \<noteq> Some 400"
    using pipeline_response [of e] by (auto simp: response_defs)
  moreover have
    "map_option status (response_of (try_catch (try_block_alt e) (catch_block e) idle))
       \<noteq> Some 400"
    using pipeline_alt_response [of e] by (auto simp: response_defs)
  ultimately show ?thesis
    using ok pipeline_launches [of e] pipeline_alt_launches [of e]
    by (simp add: post_scrape_accepted [OF ok] post_scrape_alt_accepted [OF ok]
        pipeline_navigates pipeline_alt_navigates)
qed

text \<open>
  C1, amended, on two strings: \<open>data:text/html,<h1>hi</h1>\<close> is accepted, the
  browser is launched and \<open>page.goto\<close> is called with it; \<open>not-a-url\<close> is rejected
  with status 400.
\<close>

theorem validator_accepts_what_URL_parses_witness:
  "new_URL (hier_parses data_env) ''data:text/html,<h1>hi</h1>'' \<noteq> None \<and>
   Launch \<in> set (calls_of (post_scrape data_env (Str ''data:text/html,<h1>hi</h1>''))) \<and>
   Goto \<in> set (calls_of (post_scrape data_env (Str ''data:text/html,<h1>hi</h1>''))) \<and>
   map_option status
     (response_of (post_scrape data_env (Str ''data:text/html,<h1>hi</h1>''))) \<noteq> Some 400 \<and>
   new_URL (hier_parses data_env) ''not-a-url'' = None \<and>
   map_option status (response_of (post_scrape data_env (Str ''not-a-url''))) = Some 400"
  using validator_accepts_what_URL_parses [of data_env "''data:text/html,<h1>hi</h1>''"]
    validator_accepts_what_URL_parses [of data_env "''not-a-url''"]
  by (simp add: new_URL_data new_URL_not_a_url data_env_def)

text \<open>
  C4: for every string that \<open>new URL\<close> fails to parse, both servers answer with status
  400 and make no call into the browser engine at all, so \<open>chromium.launch\<close> is never
  reached and no browser is acquired.
\<close>

theorem unparsable_url_never_launches:
  assumes "new_URL (hier_parses e) u = None"
  shows "map_option status (response_of (post_scrape e (Str u))) = Some 400 \<and>
         calls_of (post_scrape e (Str u)) = [] \<and>
         \<not> acquired (post_scrape e (Str u)) \<and>
         map_option status (response_of (post_scrape_alt e (Str u))) = Some 400 \<and>
         calls_of (post_scrape_alt e (Str u)) = [] \<and>
         \<not> acquired (post_scrape_alt e (Str u))"
  using assms
  by (simp add: post_scrape_rejected post_scrape_alt_rejected run_defs idle_def response_defs)

text \<open>C4 on the string \<open>not-a-url\<close>, which has no scheme.\<close>

theorem unparsable_url_never_launches_witness:
  "new_URL (hier_parses sample_env) ''not-a-url'' = None \<and>
   response_of (post_scrape sample_env (Str ''not-a-url'')) =
     Some (invalid_response ''not-a-url'') \<and>
   map_option status (response_of (post_scrape sample_env (Str ''not-a-url''))) = Some 400 \<and>
   calls_of (post_scrape sample_env (Str ''not-a-url'')) = []"
  using unparsable_url_never_launches [of sample_env "''not-a-url''"]
  by (simp add: new_URL_not_a_url post_scrape_rejected response_of_def)

section \<open>Release of the browser (C2)\<close>

text \<open>
  C2, as stated, fails when the fault is raised by \<open>browser.close\<close> itself: the close
  that ends the \<open>try\<close> block throws, control passes to the \<open>catch\<close> block, the
  variable \<open>browser\<close> is set, and \<open>browser.close\<close> is invoked a second time,
  before the 500 response is sent.
\<close>

theorem close_invoked_twice_counterexample:
  "acquired (post_scrape close_fault_env (Str ''https://example.com'')) \<and>
   calls_of (post_scrape close_fault_env (Str ''https://example.com'')) =
     [Launch, NewContext, NewPage, SetDefaultTimeout, Goto, WaitForSelector, Evaluate,
      CloseTry, CloseCatch] \<and>
   close_count (post_scrape close_fault_env (Str ''https://example.com'')) = 2 \<and>
   response_of (post_scrape close_fault_env (Str ''https://example.com'')) =
     Some (failure_response ''Protocol error'')"
proof -
  have "new_URL (hier_parses close_fault_env) ''https://example.com'' = Some ''https''"
    by (simp add: close_fault_env_def env_defs new_URL_example)
  then show ?thesis
    by (simp add: post_scrape_accepted pipeline_simps close_fault_env_def env_defs)
qed

text \<open>
  C2, amended: in every run of either server in which a browser is acquired,
  \<open>browser.close\<close> is invoked exactly once, on success, on a navigation timeout, on a
  content-wait timeout and on a fault of any call between \<open>chromium.launch\<close> and
  \<open>browser.close\<close>; it is invoked twice exactly when the close that ends the
  \<open>try\<close> block is reached and throws. It is never invoked zero times.
\<close>

theorem close_invoked_once_unless_close_throws:
  assumes "run = post_scrape e url \<or> run = post_scrape_alt e url"
    and "acquired run"
  shows "close_count run =
           (if CloseTry \<in> set (calls_of run) \<and> fault e CloseTry \<noteq> None then 2 else 1)"
proof (cases url)
  case Absent
  with assms show ?thesis
    by (auto simp: post_scrape_absent run_defs idle_def)
next
  case (Str u)
  show ?thesis
  proof (cases "u = [] \<or> new_URL (hier_parses e) u = None")
    case True
    with assms Str show ?thesis
      by (auto simp: post_scrape_rejected post_scrape_alt_rejected run_defs idle_def)
  next
    case False
    then obtain parsed where ok: "u \<noteq> []" "new_URL (hier_parses e) u = Some parsed"
      by auto
    from assms(1) show ?thesis
    proof
      assume "run = post_scrape e url"
      then have run: "run = try_catch (try_block e) (catch_block e) idle"
        by (simp add: Str post_scrape_accepted [OF ok])
      with assms(2) have "fault e Launch = None"
        by (simp add: pipeline_acquired)
      then show ?thesis
        unfolding run by (simp add: pipeline_close_count)
    next
      assume "run = post_scrape_alt e url"
      then have run: "run = try_catch (try_block_alt e) (catch_block e) idle"
        by (simp add: Str post_scrape_alt_accepted [OF ok])
      with assms(2) have "fault e Launch = None"
        by (simp add: pipeline_alt_acquired)
      then show ?thesis
        unfolding run by (simp add: pipeline_alt_close_count)
    qed
  qed
qed

text \<open>
  C2, amended, on a navigation timeout: the browser is acquired, the response is the 500
  failure, and \<open>browser.close\<close> is invoked once.
\<close>

theorem close_invoked_once_unless_close_throws_witness:
  "acquired (post_scrape nav_timeout_env (Str ''https://example.com'')) \<and>
   response_of (post_scrape nav_timeout_env (Str ''https://example.com'')) =
     Some (failure_response ''Timeout 30000ms exceeded.'') \<and>
   close_count (post_scrape nav_timeout_env (Str ''https://example.com'')) = 1"
proof -
  have ok: "new_URL (hier_parses nav_timeout_env) ''https://example.com'' = Some ''https''"
    by (simp add: env_defs new_URL_example)
  have run: "post_scrape nav_timeout_env (Str ''https://example.com'') =
      (Inr (), \<lparr>browser = True,
                trace = [Launch, NewContext, NewPage, SetDefaultTimeout, Goto, CloseCatch],
                sent = Some (failure_response ''Timeout 30000ms exceeded.'')\<rparr>)"
    using ok by (simp add: post_scrape_accepted pipeline_simps env_defs)
  have acq: "acquired (post_scrape nav_timeout_env (Str ''https://example.com''))"
    by (simp add: run acquired_def)
  show ?thesis
    using close_invoked_once_unless_close_throws
      [of "post_scrape nav_timeout_env (Str ''https://example.com'')" nav_timeout_env
          "Str ''https://example.com''", OF _ acq]
    by (simp add: run run_defs)
qed

section \<open>The response envelope (C3)\<close>

text \<open>
  C3 at a request without \<open>url\<close> and at the request \<open>{"url": "not-a-url"}\<close>: both
  are answered with status 400 and a JSON object that has an \<open>error\<close> field and no
  \<open>success\<close> field. The other failure responses of the service carry
  \<open>success: false\<close>: the 500 response of the same handler (here on a navigation
  timeout), the error-handling middleware and the 404 handler.
\<close>

theorem bad_request_lacks_success:
  "response_of (post_scrape sample_env Absent) = Some required_response \<and>
   status required_response = 400 \<and>
   json_field (body required_response) ''error'' =
     Some (JString ''URL is required in request body'') \<and>
   json_field (body required_response) ''success'' = None \<and>
   response_of (post_scrape sample_env (Str ''not-a-url'')) =
     Some (invalid_response ''not-a-url'') \<and>
   status (invalid_response ''not-a-url'') = 400 \<and>
   json_field (body (invalid_response ''not-a-url'')) ''error'' =
     Some (JString ''Invalid URL format'') \<and>
   json_field (body (invalid_response ''not-a-url'')) ''success'' = None \<and>
   response_of (post_scrape nav_timeout_env (Str ''https://example.com'')) =
     Some (failure_response ''Timeout 30000ms exceeded.'') \<and>
   json_field (body (failure_response ''Timeout 30000ms exceeded.'')) ''success'' =
     Some (JBool False) \<and>
   json_field (body error_middleware_response) ''success'' = Some (JBool False) \<and>
   json_field (body not_found_response) ''success'' = Some (JBool False)"
proof -
  have "new_URL (hier_parses nav_timeout_env) ''https://example.com'' = Some ''https''"
    by (simp add: env_defs new_URL_example)
  then have "response_of (post_scrape nav_timeout_env (Str ''https://example.com'')) =
      Some (failure_response ''Timeout 30000ms exceeded.'')"
    by (simp add: post_scrape_accepted pipeline_simps env_defs)
  then show ?thesis
    by (simp add: post_scrape_absent post_scrape_rejected new_URL_not_a_url response_of_def
        response_defs)
qed

section \<open>Rows of the table (C5, C6, C10)\<close>

text \<open>
  C5: every matched row contributes to \<open>tableRows\<close>, at its place, nothing when it has
  fewer than four \<open>td\<close> cells and exactly one entry otherwise, whose sub-fields are read
  with a lookup that yields the empty string for a cell that is absent.
\<close>

theorem short_rows_excluded:
  assumes "querySelectorAll row_selector document = before @ row # after"
    and "cells = querySelectorAll td_selector (kids row)"
  shows "tableRows (extraction document ts) =
           filter_non_null (map row_callback before) @
           (if length cells < 4 then []
            else [\<lparr>jobName = cell_text cells 0, score = cell_text cells 1,
                    count = cell_text cells 3\<rparr>]) @
           filter_non_null (map row_callback after) \<and>
         (\<forall>i. length cells \<le> i \<longrightarrow> cell_text cells i = [])"
  using assms
  by (simp add: tableRows_extraction filter_non_null_append row_callback_def row_of_cells_def
      cell_text_def item_def)

text \<open>
  C5 on the sample page: the row with two cells, between two rows that are kept, leaves no
  entry, and the lookup of a cell the short row does not have is the empty string.
\<close>

theorem short_rows_excluded_witness:
  "querySelectorAll row_selector sample_page = [row_paladin] @ row_short # [row_monk] \<and>
   length (querySelectorAll td_selector (kids row_short)) = 2 \<and>
   tableRows (extraction sample_page ''2024-01-01T00:00:00.000Z'') =
     filter_non_null (map row_callback [row_paladin]) @ [] @
     filter_non_null (map row_callback [row_monk]) \<and>
   cell_text (querySelectorAll td_selector (kids row_short)) 3 = []"
proof -
  have len: "length (querySelectorAll td_selector (kids row_short)) = 2"
    by (simp add: row_short_def dom_defs)
  show ?thesis
    using short_rows_excluded [of sample_page "[row_paladin]" row_short "[row_monk]"
        "querySelectorAll td_selector (kids row_short)"
        "''2024-01-01T00:00:00.000Z''"]
    by (simp add: rows_sample_page len)
qed

text \<open>
  C6: \<open>tableRows\<close> is the list of the non-null results of the row callback on the matched
  rows taken in document order, so the kept rows form a subsequence of the per-row results:
  dropping the short rows never reorders the others. The \<open>forEach\<close> of the second server
  builds the same list.
\<close>

theorem tableRows_in_document_order:
  "map Some (tableRows (extraction document ts)) =
     filter (\<lambda>r. r \<noteq> None) (map row_callback (querySelectorAll row_selector document)) \<and>
   subseq (map Some (tableRows (extraction document ts)))
     (map row_callback (querySelectorAll row_selector document)) \<and>
   tableRows (extraction_push document ts) = tableRows (extraction document ts)"
  by (simp add: tableRows_extraction filter_non_null_filter filter_non_null_subseq
      extraction_push_extraction)

text \<open>C6 on the sample page: the first and the third row, in that order.\<close>

theorem tableRows_in_document_order_witness:
  "map row_callback (querySelectorAll row_selector sample_page) =
     [Some \<lparr>jobName = ''Paladin'', score = ''95.1'', count = ''120''\<rparr>, None,
      Some \<lparr>jobName = ''Monk'', score = ''90.0'', count = ''80''\<rparr>] \<and>
   tableRows (extraction sample_page ''2024-01-01T00:00:00.000Z'') =
     [\<lparr>jobName = ''Paladin'', score = ''95.1'', count = ''120''\<rparr>,
      \<lparr>jobName = ''Monk'', score = ''90.0'', count = ''80''\<rparr>]"
proof -
  have results: "map row_callback (querySelectorAll row_selector sample_page) =
     [Some \<lparr>jobName = ''Paladin'', score = ''95.1'', count = ''120''\<rparr>, None,
      Some \<lparr>jobName = ''Monk'', score = ''90.0'', count = ''80''\<rparr>]"
    unfolding rows_sample_page
    by (simp add: row_paladin_def row_short_def row_monk_def dom_defs)
  have "map Some (tableRows (extraction sample_page ''2024-01-01T00:00:00.000Z'')) =
     map Some [\<lparr>jobName = ''Paladin'', score = ''95.1'', count = ''120''\<rparr>,
               \<lparr>jobName = ''Monk'', score = ''90.0'', count = ''80''\<rparr>]"
    using tableRows_in_document_order [of sample_page "''2024-01-01T00:00:00.000Z''"] by (simp add: results)
  then have "tableRows (extraction sample_page ''2024-01-01T00:00:00.000Z'') =
     [\<lparr>jobName = ''Paladin'', score = ''95.1'', count = ''120''\<rparr>,
      \<lparr>jobName = ''Monk'', score = ''90.0'', count = ''80''\<rparr>]"
    by (simp only: inj_map_eq_map [OF inj_Some])
  with results show ?thesis
    by simp
qed

text \<open>
  C10: the sub-fields of a kept row are the trimmed texts of the cells at indices 0, 1 and
  3. The cell at index 2 is not read: replacing it by any other node leaves the row
  unchanged. The unguarded reads of the second server give the same row.
\<close>

theorem row_fields_skip_third_cell:
  assumes "row_of_cells cells = Some r"
  shows "4 \<le> length cells \<and>
         jobName r = trim (textContent (cells ! 0)) \<and>
         score r = trim (textContent (cells ! 1)) \<and>
         count r = trim (textContent (cells ! 3)) \<and>
         row_of_cells (cells[2 := c]) = Some r \<and>
         (cells = querySelectorAll td_selector (kids row) \<longrightarrow> forEach_push [row] [] = [r])"
  using assms
  by (auto simp: row_of_cells_def cell_text_def item_def forEach_push_map_filter
      row_callback_def split: if_splits)

text \<open>C10 on the first row of the sample page, with its third cell replaced.\<close>

theorem row_fields_skip_third_cell_witness:
  "row_of_cells (querySelectorAll td_selector (kids row_paladin)) =
     Some \<lparr>jobName = ''Paladin'', score = ''95.1'', count = ''120''\<rparr> \<and>
   row_of_cells ((querySelectorAll td_selector (kids row_paladin))[2 := td ''other'']) =
     Some \<lparr>jobName = ''Paladin'', score = ''95.1'', count = ''120''\<rparr>"
proof -
  have r: "row_of_cells (querySelectorAll td_selector (kids row_paladin)) =
     Some \<lparr>jobName = ''Paladin'', score = ''95.1'', count = ''120''\<rparr>"
    by (simp add: row_paladin_def dom_defs)
  show ?thesis
    using row_fields_skip_third_cell [OF r, of "td ''other''" row_paladin]
    by (simp add: r)
qed

section \<open>Timeouts (C7)\<close>

lemma pipeline_ignores_selector_wait:
  "try_catch (try_block (e\<lparr>fault := (fault e)(WaitForSelector := w)\<rparr>))
     (catch_block (e\<lparr>fault := (fault e)(WaitForSelector := w)\<rparr>)) idle =
   try_catch (try_block e) (catch_block e) idle"
  by (cases e rule: first_fault_cases) (simp_all add: pipeline_simps split: option.split)

text \<open>
  C7: whether \<open>page.waitForSelector\<close> times out or not makes no difference to a run of
  the handler. With the other calls succeeding, a run whose content wait timed out goes on
  to \<open>page.evaluate\<close> and answers with the 200 success response. A timeout of
  \<open>page.goto\<close> skips the extraction and is answered with the 500 failure response
  carrying the message of the error.
\<close>

theorem content_wait_timeout_is_soft:
  assumes "u \<noteq> []" and "new_URL (hier_parses e) u = Some parsed"
    and "fault e Launch = None" and "fault e NewContext = None"
    and "fault e NewPage = None" and "fault e SetDefaultTimeout = None"
  shows "post_scrape (e\<lparr>fault := (fault e)(WaitForSelector := w)\<rparr>) (Str u) =
           post_scrape e (Str u) \<and>
         (fault e Goto = None \<and> fault e WaitForSelector = Some timeout \<and>
          fault e Evaluate = None \<and> fault e CloseTry = None \<longrightarrow>
            response_of (post_scrape e (Str u)) =
              Some (success_response (extraction (page_dom e) (now e))) \<and>
            Evaluate \<in> set (calls_of (post_scrape e (Str u)))) \<and>
         (fault e Goto = Some timeout \<and> fault e CloseCatch = None \<longrightarrow>
            response_of (post_scrape e (Str u)) = Some (failure_response timeout) \<and>
            status (failure_response timeout) = 500 \<and>
            Evaluate \<notin> set (calls_of (post_scrape e (Str u))))"
proof -
  have "post_scrape (e\<lparr>fault := (fault e)(WaitForSelector := w)\<rparr>) (Str u) =
      post_scrape e (Str u)"
    using assms(1,2) by (simp add: post_scrape_def pipeline_ignores_selector_wait)
  moreover have "post_scrape e (Str u) = try_catch (try_block e) (catch_block e) idle"
    using assms(1,2) by (rule post_scrape_accepted)
  ultimately show ?thesis
    using assms(3-6) by (simp add: pipeline_simps failure_response_def)
qed

text \<open>
  C7 in a world where only the content wait times out, on a page without rows, and in a
  world where only the navigation times out.
\<close>

theorem content_wait_timeout_is_soft_witness:
  "fault wait_timeout_env WaitForSelector = Some ''Timeout 15000ms exceeded.'' \<and>
   response_of (post_scrape wait_timeout_env (Str ''https://example.com'')) =
     Some (success_response
       \<lparr>zoneName = [], bossName = [], tableRows = [],
        timestamp = ''2024-01-01T00:00:00.000Z''\<rparr>) \<and>
   fault nav_timeout_env Goto = Some ''Timeout 30000ms exceeded.'' \<and>
   response_of (post_scrape nav_timeout_env (Str ''https://example.com'')) =
     Some (failure_response ''Timeout 30000ms exceeded.'')"
proof -
  have ok: "new_URL (hier_parses wait_timeout_env) ''https://example.com'' = Some ''https''"
    "new_URL (hier_parses nav_timeout_env) ''https://example.com'' = Some ''https''"
    by (simp_all add: wait_timeout_env_def env_defs new_URL_example)
  show ?thesis
    using content_wait_timeout_is_soft
        [OF _ ok(1), where w = None and timeout = "''Timeout 15000ms exceeded.''"]
      content_wait_timeout_is_soft
        [OF _ ok(2), where w = None and timeout = "''Timeout 30000ms exceeded.''"]
    by (simp add: wait_timeout_env_def env_defs extraction_bare_page)
qed

section \<open>Missing elements and determinism (C8, C9)\<close>

text \<open>
  C8: when no call other than the content wait throws, the handler answers with status 200
  and \<open>success: true\<close>, whatever the page holds. In the record it sends, \<open>zoneName\<close>
  is the empty string when no element matches \<open>a.zone-name\<close> and otherwise the trimmed
  text of the first match in document order; likewise \<open>bossName\<close> for
  \<open>#filter-boss-text\<close>.
\<close>

theorem absent_zone_or_boss_is_empty_string:
  assumes "u \<noteq> []" and "new_URL (hier_parses e) u = Some parsed"
    and "\<forall>st. st \<noteq> WaitForSelector \<longrightarrow> fault e st = None"
    and "d = extraction (page_dom e) (now e)"
  shows "response_of (post_scrape e (Str u)) =
           Some \<lparr>status = 200,
                 body = JObject [(''success'', JBool True), (''data'', json_of_scraped d)]\<rparr> \<and>
         zoneName d =
           (case querySelectorAll zone_selector (page_dom e) of
              [] \<Rightarrow> [] | z # zs \<Rightarrow> trim (textContent z)) \<and>
         bossName d =
           (case querySelectorAll boss_selector (page_dom e) of
              [] \<Rightarrow> [] | b # bs \<Rightarrow> trim (textContent b))"
proof -
  have "post_scrape e (Str u) = try_catch (try_block e) (catch_block e) idle"
    using assms(1,2) by (rule post_scrape_accepted)
  then have "response_of (post_scrape e (Str u)) = Some (success_response d)"
    using assms(3,4) by (simp add: pipeline_simps)
  then show ?thesis
    by (simp add: assms(4) success_response_def zoneName_extraction bossName_extraction
        querySelector_def split: list.split)
qed

text \<open>C8 on a page that has neither element: both fields are empty, the status is 200.\<close>

theorem absent_zone_or_boss_is_empty_string_witness:
  "querySelectorAll zone_selector (page_dom bare_env) = [] \<and>
   querySelectorAll boss_selector (page_dom bare_env) = [] \<and>
   response_of (post_scrape bare_env (Str ''https://example.com'')) =
     Some \<lparr>status = 200,
           body = JObject [(''success'', JBool True),
             (''data'', JObject [(''zoneName'', JString []), (''bossName'', JString []),
                (''tableRows'', JArray []),
                (''timestamp'', JString ''2024-01-01T00:00:00.000Z'')])]\<rparr>"
proof -
  have ok: "new_URL (hier_parses bare_env) ''https://example.com'' = Some ''https''"
    by (simp add: env_defs new_URL_example)
  have quiet: "\<forall>st. st \<noteq> WaitForSelector \<longrightarrow> fault bare_env st = None"
    by (simp add: env_defs)
  have absent: "querySelectorAll zone_selector (page_dom bare_env) = []"
    "querySelectorAll boss_selector (page_dom bare_env) = []"
    by (simp_all add: env_defs bare_page_def dom_defs)
  show ?thesis
    using absent_zone_or_boss_is_empty_string [OF _ ok quiet refl]
    by (simp add: absent) (simp add: env_defs extraction_bare_page json_of_scraped_def)
qed

text \<open>
  C9: on a fixed document, two runs of the extraction function give the same
  \<open>zoneName\<close>, the same \<open>bossName\<close> and the same \<open>tableRows\<close>; the records differ
  in the timestamp only. The same holds of the function of the second server.
\<close>

theorem extraction_only_timestamp_varies:
  "zoneName (extraction document t1) = zoneName (extraction document t2) \<and>
   bossName (extraction document t1) = bossName (extraction document t2) \<and>
   tableRows (extraction document t1) = tableRows (extraction document t2) \<and>
   extraction document t2 = (extraction document t1)\<lparr>timestamp := t2\<rparr> \<and>
   extraction_push document t2 = (extraction_push document t1)\<lparr>timestamp := t2\<rparr>"
  by (simp add: extraction_push_extraction)
     (simp add: extraction_def Let_def split: option.split)

text \<open>C9 on the sample page at two different times.\<close>

theorem extraction_only_timestamp_varies_witness:
  "extraction sample_page ''2024-01-01T00:00:00.000Z'' \<noteq>
     extraction sample_page ''2024-01-01T00:00:05.000Z'' \<and>
   zoneName (extraction sample_page ''2024-01-01T00:00:00.000Z'') =
     zoneName (extraction sample_page ''2024-01-01T00:00:05.000Z'') \<and>
   bossName (extraction sample_page ''2024-01-01T00:00:00.000Z'') =
     bossName (extraction sample_page ''2024-01-01T00:00:05.000Z'') \<and>
   tableRows (extraction sample_page ''2024-01-01T00:00:00.000Z'') =
     tableRows (extraction sample_page ''2024-01-01T00:00:05.000Z'')"
  using extraction_only_timestamp_varies
    [of sample_page "''2024-01-01T00:00:00.000Z''" "''2024-01-01T00:00:05.000Z''"]
  by (simp add: extraction_sample_page)

end
